theory Spec2Isabelle
  imports Main
begin

section \<open>The database file\<close>

text \<open>
  The backend keeps its state in one SQLite file with two tables. \<^verbatim>\<open>init.py\<close>
  creates them:
  \<^verbatim>\<open>comments (id INTEGER PRIMARY KEY AUTOINCREMENT, text TEXT NOT NULL)\<close> and
  \<^verbatim>\<open>login (username TEXT PRIMARY KEY, password TEXT)\<close>.
  A table that has not been created is \<open>None\<close>. The rows of a table are kept in the
  order of insertion. An AUTOINCREMENT table also remembers the largest rowid it has
  ever handed out (its \<^verbatim>\<open>sqlite_sequence\<close> entry), here the field \<open>seq\<close>; the entry goes
  away with the table when the table is dropped, and stays when rows are deleted.

  Statements that sqlite3 rejects raise in Python; they are the \<open>Inl\<close> results below,
  named after what is refused: a missing table and a used-up rowid range
  (\<^verbatim>\<open>OperationalError\<close>), a duplicate key (\<^verbatim>\<open>IntegrityError\<close>), a value over the length
  limit (SQLITE_TOOBIG, \<^verbatim>\<open>DataError\<close>), and the two refusals of the driver when it
  binds a \<^verbatim>\<open>str\<close> parameter (\<^verbatim>\<open>UnicodeEncodeError\<close>, \<^verbatim>\<open>OverflowError\<close>).
  Every function returns the database it leaves behind next to its result, so that a
  call that raises still shows which state it left. Failures of the file itself
  (locked, unreadable, disk errors) are outside the model.
\<close>

datatype db_error =
  NoSuchTable | DatabaseFull | IntegrityError | TooBig | UnicodeEncodeError | OverflowError

text \<open>
  A comment text is a Python \<^verbatim>\<open>str\<close>: a sequence of code points, each below
  \<^verbatim>\<open>0x110000\<close>. The driver stores it as UTF-8.
\<close>

type_synonym py_str = "nat list"

record comment_row =
  comment_id :: int
  comment_text :: py_str

record comments_table =
  rows :: "comment_row list"
  seq :: int

record login_row =
  username :: string
  password :: string

record database =
  comments :: "comments_table option"
  login :: "login_row list option"

type_synonym 'a sql = "database \<Rightarrow> (db_error + 'a) \<times> database"

subsection \<open>The SQL statements the code executes\<close>

text \<open>The largest value of a 64-bit signed rowid.\<close>

definition max_rowid :: int where
  "max_rowid = 9223372036854775807"

text \<open>
  AUTOINCREMENT picks one more than the largest rowid the table has ever held: the
  maximum of the remembered sequence value and of the ids present.
\<close>

definition largest_rowid :: "comments_table \<Rightarrow> int" where
  "largest_rowid t = fold max (map comment_id (rows t)) (seq t)"

text \<open>
  A \<^verbatim>\<open>str\<close> encodes as UTF-8 unless it holds a surrogate code point
  (\<^verbatim>\<open>U+D800\<close> to \<^verbatim>\<open>U+DFFF\<close>); the encoding takes one to four bytes per code point.
\<close>

definition is_surrogate :: "nat \<Rightarrow> bool" where
  "is_surrogate c = (55296 \<le> c \<and> c \<le> 57343)"

definition encodable :: "py_str \<Rightarrow> bool" where
  "encodable t = list_all (\<lambda>c. \<not> is_surrogate c) t"

definition utf8_width :: "nat \<Rightarrow> nat" where
  "utf8_width c = (if c < 128 then 1 else if c < 2048 then 2 else if c < 65536 then 3 else 4)"

definition utf8_length :: "py_str \<Rightarrow> nat" where
  "utf8_length t = sum_list (map utf8_width t)"

text \<open>
  The limits: the driver binds at most \<^verbatim>\<open>INT_MAX\<close> bytes, and SQLite refuses a string,
  and a row, of more bytes than \<^verbatim>\<open>SQLITE_LIMIT_LENGTH\<close>, by default 1000000000.
\<close>

definition INT_MAX :: nat where
  "INT_MAX = 2147483647"

definition SQLITE_LIMIT_LENGTH :: nat where
  "SQLITE_LIMIT_LENGTH = 1000000000"

text \<open>The number of bytes of SQLite's variable-length integer for a value below \<open>2^64\<close>.\<close>

definition varint_length :: "nat \<Rightarrow> nat" where
  "varint_length v =
     (if v < 128 then 1 else if v < 16384 then 2 else if v < 2097152 then 3
      else if v < 268435456 then 4 else if v < 34359738368 then 5
      else if v < 4398046511104 then 6 else if v < 562949953421312 then 7
      else if v < 72057594037927936 then 8 else 9)"

text \<open>
  The bytes of a row of \<^verbatim>\<open>comments\<close> whose text has \<open>n\<close> bytes. The id is the rowid
  and is stored in the row as NULL. The header holds its own length (one byte), the
  type of the NULL (one byte) and the type of the text, \<open>2 * n + 13\<close>, as a variable-length
  integer; the body is the text.
\<close>

definition record_size :: "nat \<Rightarrow> nat" where
  "record_size n = 2 + varint_length (2 * n + 13) + n"

text \<open>
  \<^verbatim>\<open>INSERT INTO comments (text) VALUES (?)\<close>. The new row gets the next rowid and
  goes after the rows present; the table remembers the rowid. In the order in which
  the refusals come: the statement is prepared, which fails when the table is missing;
  the driver encodes and binds the text; the statement runs, takes the next rowid,
  which fails with SQLITE_FULL once the largest rowid has been used, and builds the
  row, which fails when the row is over the length limit. The text is a Python
  \<^verbatim>\<open>str\<close>, so NOT NULL never rejects it. A refused statement leaves the database as it
  was.
\<close>

definition append_row :: "py_str \<Rightarrow> comments_table \<Rightarrow> comments_table" where
  "append_row t tab =
     tab\<lparr>rows := rows tab @ [\<lparr>comment_id = largest_rowid tab + 1, comment_text = t\<rparr>],
         seq := largest_rowid tab + 1\<rparr>"

definition insert_comment :: "py_str \<Rightarrow> unit sql" where
  "insert_comment t db =
     (case comments db of
        None \<Rightarrow> (Inl NoSuchTable, db)
      | Some tab \<Rightarrow>
          if \<not> encodable t then (Inl UnicodeEncodeError, db)
          else if INT_MAX < utf8_length t then (Inl OverflowError, db)
          else if SQLITE_LIMIT_LENGTH < utf8_length t then (Inl TooBig, db)
          else if max_rowid \<le> largest_rowid tab then (Inl DatabaseFull, db)
          else if SQLITE_LIMIT_LENGTH < record_size (utf8_length t) then (Inl TooBig, db)
          else (Inr (), db\<lparr>comments := Some (append_row t tab)\<rparr>))"

text \<open>The texts that the driver and the length limit let through.\<close>

definition accepted_text :: "py_str \<Rightarrow> bool" where
  "accepted_text t = (encodable t \<and> record_size (utf8_length t) \<le> SQLITE_LIMIT_LENGTH)"

text \<open>\<^verbatim>\<open>DELETE FROM comments\<close>: every row goes, the sequence value stays.\<close>

definition delete_from_comments :: "unit sql" where
  "delete_from_comments db =
     (case comments db of
        None \<Rightarrow> (Inl NoSuchTable, db)
      | Some tab \<Rightarrow> (Inr (), db\<lparr>comments := Some (tab\<lparr>rows := []\<rparr>)\<rparr>))"

text \<open>\<^verbatim>\<open>ORDER BY id DESC\<close>: the rows sorted by descending id.\<close>

definition order_by_id_desc :: "comment_row list \<Rightarrow> comment_row list" where
  "order_by_id_desc rs = sort_key (\<lambda>r. - comment_id r) rs"

text \<open>\<^verbatim>\<open>SELECT text FROM comments ORDER BY id DESC\<close>, a read.\<close>

definition select_text_desc :: "database \<Rightarrow> db_error + py_str list" where
  "select_text_desc db =
     (case comments db of
        None \<Rightarrow> Inl NoSuchTable
      | Some tab \<Rightarrow> Inr (map comment_text (order_by_id_desc (rows tab))))"

text \<open>\<^verbatim>\<open>DROP TABLE IF EXISTS\<close> and \<^verbatim>\<open>CREATE TABLE IF NOT EXISTS\<close>, for both tables.\<close>

definition drop_comments :: "database \<Rightarrow> database" where
  "drop_comments db = db\<lparr>comments := None\<rparr>"

definition create_comments :: "database \<Rightarrow> database" where
  "create_comments db =
     (case comments db of
        None \<Rightarrow> db\<lparr>comments := Some \<lparr>rows = [], seq = 0\<rparr>\<rparr>
      | Some _ \<Rightarrow> db)"

definition drop_login :: "database \<Rightarrow> database" where
  "drop_login db = db\<lparr>login := None\<rparr>"

definition create_login :: "database \<Rightarrow> database" where
  "create_login db =
     (case login db of
        None \<Rightarrow> db\<lparr>login := Some []\<rparr>
      | Some _ \<Rightarrow> db)"

text \<open>
  \<^verbatim>\<open>INSERT INTO login (username, password) VALUES (?, ?)\<close>. The username is the
  primary key: a second row with the same username is an integrity error.
\<close>

definition insert_login :: "string \<Rightarrow> string \<Rightarrow> unit sql" where
  "insert_login u p db =
     (case login db of
        None \<Rightarrow> (Inl NoSuchTable, db)
      | Some rs \<Rightarrow>
          if u \<in> set (map username rs) then (Inl IntegrityError, db)
          else (Inr (), db\<lparr>login := Some (rs @ [\<lparr>username = u, password = p\<rparr>])\<rparr>))"

section \<open>init.py\<close>

definition make_comments :: "database \<Rightarrow> database" where
  "make_comments db = create_comments (drop_comments db)"

definition default_password_hash :: string where
  "default_password_hash =
     ''$argon2id$v=19$m=102400,t=2,p=8$l7bMrtz82jfIJk5Uq82mGQ$1ABNbzjrDJ6WPNnhGi5UpQ''"

definition make_login :: "unit sql" where
  "make_login db =
     insert_login ''admin'' default_password_hash (create_login (drop_login db))"

section \<open>record.py\<close>

definition create_record :: "py_str \<Rightarrow> bool sql" where
  "create_record comment_text_arg db =
     (case insert_comment comment_text_arg db of
        (Inl e, db') \<Rightarrow> (Inl e, db')
      | (Inr _, db') \<Rightarrow> (Inr True, db'))"

definition purge_all_records :: "unit sql" where
  "purge_all_records db = delete_from_comments db"

definition get_all_records :: "database \<Rightarrow> db_error + py_str list" where
  "get_all_records db = select_text_desc db"

text \<open>A sequence of calls of \<open>create_record\<close>, one per text, stopping at a call that raises.\<close>

fun create_records :: "py_str list \<Rightarrow> unit sql" where
  "create_records [] db = (Inr (), db)"
| "create_records (t # ts) db =
     (case create_record t db of
        (Inl e, db') \<Rightarrow> (Inl e, db')
      | (Inr _, db') \<Rightarrow> create_records ts db')"

section \<open>app.py\<close>

subsection \<open>Responses, sessions and credentials\<close>

text \<open>
  Every JSON response of the routes is the envelope \<^verbatim>\<open>{status, message, data}\<close>, with
  \<^verbatim>\<open>data\<close> either \<^verbatim>\<open>None\<close> or \<^verbatim>\<open>{"records": [...]}\<close>. One route answers with a redirect.
\<close>

datatype json_data = Null | Records "py_str list"

record envelope =
  status :: bool
  message :: string
  data :: json_data

datatype response = JSONResponse envelope | RedirectResponse string nat

text \<open>The status of a response that is an envelope; a redirect has none.\<close>

fun envelope_status :: "response \<Rightarrow> bool option" where
  "envelope_status (JSONResponse e) = Some (status e)"
| "envelope_status (RedirectResponse url code) = None"

text \<open>
  \<^verbatim>\<open>request.session\<close> is a dictionary; the routes only use its key \<^verbatim>\<open>"user"\<close>, which
  holds the dump of \<^verbatim>\<open>SessionData\<close>, a dictionary with the key \<^verbatim>\<open>"permitted"\<close>.
\<close>

type_synonym session_data = "string \<rightharpoonup> bool"
type_synonym session = "string \<rightharpoonup> session_data"

text \<open>\<^verbatim>\<open>request.session.get("user", {"permitted": False})\<close>\<close>

definition session_get_user :: "session \<Rightarrow> session_data" where
  "session_get_user s =
     (case s ''user'' of None \<Rightarrow> [''permitted'' \<mapsto> False] | Some d \<Rightarrow> d)"

text \<open>The truth value of \<^verbatim>\<open>session_data.get("permitted")\<close>: a missing key gives \<^verbatim>\<open>None\<close>.\<close>

definition get_permitted :: "session_data \<Rightarrow> bool" where
  "get_permitted d = (case d ''permitted'' of None \<Rightarrow> False | Some b \<Rightarrow> b)"

text \<open>
  What \<^verbatim>\<open>HTTPBearer(auto_error=False)\<close> hands to the dependency: \<open>None\<close> when the request
  has no usable Authorization header, else the scheme and the credential string as
  sent. \<^verbatim>\<open>BEARER_TOKEN\<close> comes from \<^verbatim>\<open>os.getenv\<close>, which is \<open>None\<close> for an unset variable.
\<close>

record HTTPAuthorizationCredentials =
  scheme :: string
  credentials :: string

definition verify_bearer_token ::
  "string option \<Rightarrow> HTTPAuthorizationCredentials option \<Rightarrow> bool" where
  "verify_bearer_token BEARER_TOKEN cred =
     (case cred of
        None \<Rightarrow> False
      | Some c \<Rightarrow>
          if scheme c = ''Bearer'' \<and> Some (credentials c) = BEARER_TOKEN then True
          else False)"

subsection \<open>Routes\<close>

definition logout_route :: "session \<Rightarrow> response \<times> session" where
  "logout_route s =
     (JSONResponse \<lparr>status = True, message = ''Logged out!'', data = Null\<rparr>,
      s(''user'' := None))"

text \<open>
  \<^verbatim>\<open>cred.py\<close> is not among the sources: \<open>is_permitted\<close> and \<open>change_cred\<close> are
  parameters of the routes that call them. \<open>is_permitted\<close> reads the database and may
  raise; \<open>change_cred\<close> writes it.
\<close>

definition login_route ::
  "(string \<Rightarrow> string \<Rightarrow> database \<Rightarrow> db_error + bool) \<Rightarrow>
   session \<Rightarrow> string \<Rightarrow> string \<Rightarrow> database \<Rightarrow> (db_error + response) \<times> session" where
  "login_route is_permitted s username_arg password_arg db =
     (case is_permitted username_arg password_arg db of
        Inl e \<Rightarrow> (Inl e, s)
      | Inr ok \<Rightarrow>
          if \<not> ok then
            (Inr (JSONResponse
               \<lparr>status = False, message = ''Invalid credentials!'', data = Null\<rparr>),
             s(''user'' := None))
          else
            (Inr (JSONResponse \<lparr>status = True, message = ''Logged in!'', data = Null\<rparr>),
             s(''user'' \<mapsto> [''permitted'' \<mapsto> True])))"

definition check_user_route :: "session \<Rightarrow> response" where
  "check_user_route s =
     (let session_data = session_get_user s in
      if \<not> get_permitted session_data then
        JSONResponse \<lparr>status = False, message = ''Log in first!'', data = Null\<rparr>
      else JSONResponse \<lparr>status = True, message = ''User permitted!'', data = Null\<rparr>)"

definition change_pass_route ::
  "(string \<Rightarrow> unit sql) \<Rightarrow> session \<Rightarrow> string \<Rightarrow> bool \<Rightarrow> response sql" where
  "change_pass_route change_cred s new_pass bypass db =
     (let session_data = session_get_user s in
      if \<not> (bypass \<or> get_permitted session_data) then
        (Inr (JSONResponse \<lparr>status = False, message = ''Login first!'', data = Null\<rparr>), db)
      else
        (case change_cred new_pass db of
           (Inl e, db') \<Rightarrow> (Inl e, db')
         | (Inr _, db') \<Rightarrow>
             (Inr (JSONResponse
                \<lparr>status = True, message = ''Password changed!'', data = Null\<rparr>), db')))"

definition create_record_route :: "py_str \<Rightarrow> response sql" where
  "create_record_route comment_text_arg db =
     (case create_record comment_text_arg db of
        (Inl e, db') \<Rightarrow> (Inl e, db')
      | (Inr _, db') \<Rightarrow>
          (Inr (JSONResponse
             \<lparr>status = True, message = ''Comment created!'', data = Null\<rparr>), db'))"

definition get_all_records_route :: "database \<Rightarrow> db_error + response" where
  "get_all_records_route db =
     (case get_all_records db of
        Inl e \<Rightarrow> Inl e
      | Inr rs \<Rightarrow>
          Inr (JSONResponse \<lparr>status = True, message = ''Success!'', data = Records rs\<rparr>))"

definition purge_all_records_route :: "session \<Rightarrow> bool \<Rightarrow> response sql" where
  "purge_all_records_route s bypass db =
     (let session_data = session_get_user s in
      if \<not> (bypass \<or> get_permitted session_data) then
        (Inr (RedirectResponse ''/login/'' 302), db)
      else
        (case purge_all_records db of
           (Inl e, db') \<Rightarrow> (Inl e, db')
         | (Inr _, db') \<Rightarrow>
             (Inr (JSONResponse
                \<lparr>status = True, message = ''All records deleted!'', data = Null\<rparr>), db')))"

text \<open>\<open>init\<close> of \<^verbatim>\<open>app.py\<close>: both tables are made anew.\<close>

definition init :: "unit sql" where
  "init db = make_login (make_comments db)"

section \<open>The record store\<close>

subsection \<open>Rowids\<close>

lemma fold_max_lower: "(a::int) \<le> fold max xs a"
  by (induction xs arbitrary: a) (auto intro: order_trans [OF max.cobounded2])

lemma fold_max_upper: "x \<in> set xs \<Longrightarrow> (x::int) \<le> fold max xs a"
proof (induction xs arbitrary: a)
  case Nil
  then show ?case by simp
next
  case (Cons y ys)
  show ?case
  proof (cases "x = y")
    case True
    have "y \<le> max y a" by simp
    also have "\<dots> \<le> fold max ys (max y a)" by (rule fold_max_lower)
    finally show ?thesis using True by simp
  next
    case False
    with Cons.prems have "x \<in> set ys" by simp
    then show ?thesis using Cons.IH by simp
  qed
qed

lemma fold_max_absorb: "(\<And>x. x \<in> set xs \<Longrightarrow> x \<le> a) \<Longrightarrow> fold max xs (a::int) = a"
  by (induction xs) (simp_all add: max_absorb2)

lemma largest_rowid_bounds_ids:
  "r \<in> set (rows tab) \<Longrightarrow> comment_id r \<le> largest_rowid tab"
  unfolding largest_rowid_def by (rule fold_max_upper) simp

lemma largest_rowid_append_row: "largest_rowid (append_row t tab) = largest_rowid tab + 1"
proof -
  have le: "x \<le> largest_rowid tab + 1" if "x \<in> set (map comment_id (rows tab))" for x
  proof -
    from that obtain r where "r \<in> set (rows tab)" and "x = comment_id r" by auto
    then show ?thesis using largest_rowid_bounds_ids [of r tab] by simp
  qed
  have "fold max (map comment_id (rows tab)) (largest_rowid tab + 1) = largest_rowid tab + 1"
    using le by (rule fold_max_absorb)
  then show ?thesis
    by (simp add: append_row_def largest_rowid_def [of "_\<lparr>rows := _, seq := _\<rparr>"])
qed

subsection \<open>The listing order\<close>

lemma insort_key_above:
  "\<forall>y\<in>set xs. f x < f y \<Longrightarrow>
     foldr (insort_key f) xs [x] = x # foldr (insort_key f) xs []"
  for f :: "'a \<Rightarrow> int"
  by (induction xs) auto

lemma order_by_id_desc_snoc:
  assumes "\<And>y. y \<in> set rs \<Longrightarrow> comment_id y < comment_id r"
  shows "order_by_id_desc (rs @ [r]) = r # order_by_id_desc rs"
proof -
  have "foldr (insort_key (\<lambda>r. - comment_id r)) rs [r] =
        r # foldr (insort_key (\<lambda>r. - comment_id r)) rs []"
    by (rule insort_key_above) (simp add: assms)
  then show ?thesis
    by (simp add: order_by_id_desc_def sort_key_def)
qed

lemma order_by_id_desc_append_row:
  "order_by_id_desc (rows (append_row t tab)) =
     \<lparr>comment_id = largest_rowid tab + 1, comment_text = t\<rparr> # order_by_id_desc (rows tab)"
proof -
  have "comment_id y < comment_id \<lparr>comment_id = largest_rowid tab + 1, comment_text = t\<rparr>"
    if "y \<in> set (rows tab)" for y
    using largest_rowid_bounds_ids [OF that] by simp
  then show ?thesis
    by (simp add: append_row_def order_by_id_desc_snoc)
qed

lemma strictly_ascending_desc:
  "sorted_wrt (<) (map comment_id rs) \<Longrightarrow> order_by_id_desc rs = rev rs"
proof (induction rs rule: rev_induct)
  case Nil
  show ?case by (simp add: order_by_id_desc_def)
next
  case (snoc r rs)
  from snoc.prems have asc: "sorted_wrt (<) (map comment_id rs)"
    and above: "\<And>y. y \<in> set rs \<Longrightarrow> comment_id y < comment_id r"
    by (auto simp: sorted_wrt_append)
  show ?case
    using order_by_id_desc_snoc [of rs r] above snoc.IH [OF asc] by simp
qed

lemma append_row_ascending:
  assumes "sorted_wrt (<) (map comment_id (rows tab))"
  shows "sorted_wrt (<) (map comment_id (rows (append_row t tab)))"
proof -
  have "comment_id y < largest_rowid tab + 1" if "y \<in> set (rows tab)" for y
    using largest_rowid_bounds_ids [OF that] by simp
  then show ?thesis
    using assms by (auto simp: append_row_def sorted_wrt_append)
qed

subsection \<open>Inserting and listing\<close>

lemma record_size_above: "n < record_size n"
  by (simp add: record_size_def)

lemma accepted_text_bounds:
  assumes "accepted_text t"
  shows "encodable t" and "utf8_length t \<le> INT_MAX"
    and "utf8_length t \<le> SQLITE_LIMIT_LENGTH"
    and "record_size (utf8_length t) \<le> SQLITE_LIMIT_LENGTH"
proof -
  from assms show enc: "encodable t"
    and fits: "record_size (utf8_length t) \<le> SQLITE_LIMIT_LENGTH"
    by (simp_all add: accepted_text_def)
  from fits record_size_above [of "utf8_length t"]
  show small: "utf8_length t \<le> SQLITE_LIMIT_LENGTH" by simp
  then show "utf8_length t \<le> INT_MAX"
    by (simp add: SQLITE_LIMIT_LENGTH_def INT_MAX_def)
qed

lemma create_record_succeeds:
  assumes "comments db = Some tab" and "largest_rowid tab < max_rowid"
    and "accepted_text t"
  shows "create_record t db = (Inr True, db\<lparr>comments := Some (append_row t tab)\<rparr>)"
proof -
  have "insert_comment t db = (Inr (), db\<lparr>comments := Some (append_row t tab)\<rparr>)"
    using assms(1,2) accepted_text_bounds [OF assms(3)]
    by (simp add: insert_comment_def not_less)
  then show ?thesis by (simp add: create_record_def)
qed

lemma create_record_refused:
  assumes "\<not> accepted_text t"
  shows "\<exists>e. create_record t db = (Inl e, db)"
proof (cases "comments db")
  case None
  then show ?thesis by (simp add: create_record_def insert_comment_def)
next
  case (Some tab)
  from assms have "\<not> encodable t \<or> SQLITE_LIMIT_LENGTH < record_size (utf8_length t)"
    by (auto simp: accepted_text_def)
  with Some show ?thesis
    by (auto simp: create_record_def insert_comment_def)
qed

lemma utf8_length_replicate: "utf8_length (replicate n c) = n * utf8_width c"
  by (induction n) (simp_all add: utf8_length_def)

lemma encodable_replicate: "\<not> is_surrogate c \<Longrightarrow> encodable (replicate n c)"
  by (induction n) (simp_all add: encodable_def)

lemma get_all_records_table:
  "comments db = Some tab \<Longrightarrow>
     get_all_records db = Inr (map comment_text (order_by_id_desc (rows tab)))"
  by (simp add: get_all_records_def select_text_desc_def)

lemma create_records_table:
  assumes "comments db = Some tab"
    and "largest_rowid tab + int (length ts) \<le> max_rowid"
    and "list_all accepted_text ts"
  shows "\<exists>tab'. create_records ts db = (Inr (), db\<lparr>comments := Some tab'\<rparr>) \<and>
           map comment_text (rows tab') = map comment_text (rows tab) @ ts \<and>
           largest_rowid tab' = largest_rowid tab + int (length ts) \<and>
           (sorted_wrt (<) (map comment_id (rows tab)) \<longrightarrow>
              sorted_wrt (<) (map comment_id (rows tab')))"
  using assms
proof (induction ts arbitrary: db tab)
  case Nil
  then have "db\<lparr>comments := Some tab\<rparr> = db" by simp
  then show ?case by (intro exI [of _ tab]) simp
next
  case (Cons t ts)
  let ?db = "db\<lparr>comments := Some (append_row t tab)\<rparr>"
  from Cons.prems have room: "largest_rowid tab < max_rowid" by simp
  from Cons.prems(3) have first: "accepted_text t" and texts1: "list_all accepted_text ts"
    by simp_all
  have step: "create_record t db = (Inr True, ?db)"
    using Cons.prems(1) room first by (rule create_record_succeeds)
  have tab1: "comments ?db = Some (append_row t tab)" by simp
  have room1: "largest_rowid (append_row t tab) + int (length ts) \<le> max_rowid"
    using Cons.prems(2) by (simp add: largest_rowid_append_row)
  from Cons.IH [OF tab1 room1 texts1] obtain tab' where
    run: "create_records ts ?db = (Inr (), ?db\<lparr>comments := Some tab'\<rparr>)"
    and texts: "map comment_text (rows tab') = map comment_text (rows (append_row t tab)) @ ts"
    and top: "largest_rowid tab' = largest_rowid (append_row t tab) + int (length ts)"
    and asc: "sorted_wrt (<) (map comment_id (rows (append_row t tab))) \<longrightarrow>
              sorted_wrt (<) (map comment_id (rows tab'))"
    by blast
  have "create_records (t # ts) db = (Inr (), db\<lparr>comments := Some tab'\<rparr>)"
    using step run by simp
  moreover have "map comment_text (rows tab') = map comment_text (rows tab) @ t # ts"
    using texts by (simp add: append_row_def)
  moreover have "largest_rowid tab' = largest_rowid tab + int (length (t # ts))"
    using top by (simp add: largest_rowid_append_row)
  moreover have "sorted_wrt (<) (map comment_id (rows tab)) \<longrightarrow>
              sorted_wrt (<) (map comment_id (rows tab'))"
    using asc append_row_ascending by blast
  ultimately show ?case by blast
qed

text \<open>
  Claim C3. Start from a comments table that exists and holds no row, with room for
  \<open>N\<close> more rowids, and take \<open>N\<close> texts that the driver and the length limit let
  through. Then \<open>N\<close> calls of \<open>create_record\<close> all succeed, and \<open>get_all_records\<close>
  returns exactly the \<open>N\<close> texts, the newest first; the rows in the order of the
  listing have strictly descending ids.
\<close>

theorem create_records_newest_first:
  assumes "comments db = Some tab" and "rows tab = []"
    and "largest_rowid tab + int (length ts) \<le> max_rowid"
    and "list_all accepted_text ts"
  shows "\<exists>db' tab'. create_records ts db = (Inr (), db') \<and> comments db' = Some tab' \<and>
           get_all_records db' = Inr (rev ts) \<and>
           length (rev ts) = length ts \<and>
           map comment_text (order_by_id_desc (rows tab')) = rev ts \<and>
           sorted_wrt (>) (map comment_id (order_by_id_desc (rows tab')))"
proof -
  from create_records_table [OF assms(1,3,4)] assms(2) obtain tab' where
    run: "create_records ts db = (Inr (), db\<lparr>comments := Some tab'\<rparr>)"
    and texts: "map comment_text (rows tab') = ts"
    and asc: "sorted_wrt (<) (map comment_id (rows tab'))"
    by auto
  have desc: "order_by_id_desc (rows tab') = rev (rows tab')"
    using asc by (rule strictly_ascending_desc)
  have t1: "map comment_text (order_by_id_desc (rows tab')) = rev ts"
    using desc texts by (simp add: rev_map [symmetric])
  have t2: "sorted_wrt (>) (map comment_id (order_by_id_desc (rows tab')))"
    using desc asc by (simp add: rev_map [symmetric] sorted_wrt_rev)
  have t3: "get_all_records (db\<lparr>comments := Some tab'\<rparr>) = Inr (rev ts)"
    using t1 by (simp add: get_all_records_table [of _ tab'])
  show ?thesis
    using run t1 t2 t3 by (intro exI [of _ "db\<lparr>comments := Some tab'\<rparr>"] exI [of _ tab']) simp
qed

theorem create_records_newest_first_witness:
  "comments (make_comments \<lparr>comments = None, login = None\<rparr>) = Some \<lparr>rows = [], seq = 0\<rparr> \<and>
   rows \<lparr>rows = [], seq = 0\<rparr> = [] \<and>
   largest_rowid \<lparr>rows = [], seq = 0\<rparr> + int (length [[122], [], [233, 120]]) \<le> max_rowid \<and>
   list_all accepted_text [[122], [], [233, 120]] \<and>
   fst (create_records [[122], [], [233, 120]] (make_comments \<lparr>comments = None, login = None\<rparr>))
     = Inr () \<and>
   get_all_records
     (snd (create_records [[122], [], [233, 120]] (make_comments \<lparr>comments = None, login = None\<rparr>)))
     = Inr [[233, 120], [], [122]]"
proof -
  have h1: "comments (make_comments \<lparr>comments = None, login = None\<rparr>) =
            Some \<lparr>rows = [], seq = 0\<rparr>"
    by (simp add: make_comments_def create_comments_def drop_comments_def)
  have h2: "rows \<lparr>rows = [], seq = 0\<rparr> = []" by simp
  have h3: "largest_rowid \<lparr>rows = [], seq = 0\<rparr> + int (length [[122], [], [233, 120::nat]])
              \<le> max_rowid"
    by (simp add: largest_rowid_def max_rowid_def)
  have h4: "list_all accepted_text [[122], [], [233, 120]]"
    by (simp add: accepted_text_def encodable_def is_surrogate_def utf8_length_def
        utf8_width_def record_size_def varint_length_def SQLITE_LIMIT_LENGTH_def)
  show ?thesis
    using create_records_newest_first [OF h1 h2 h3 h4] h1 h2 h3 h4 by auto
qed

text \<open>
  Claim C4. Whatever rows the comments table holds, \<open>purge_all_records\<close> succeeds on
  it and \<open>get_all_records\<close> then returns the empty list.
\<close>

theorem purge_then_get_all_records:
  assumes "comments db = Some tab"
  shows "fst (purge_all_records db) = Inr () \<and>
         get_all_records (snd (purge_all_records db)) = Inr []"
  using assms
  by (simp add: purge_all_records_def delete_from_comments_def get_all_records_def
      select_text_desc_def order_by_id_desc_def)

theorem purge_then_get_all_records_witness:
  "get_all_records
     \<lparr>comments = Some \<lparr>rows = [\<lparr>comment_id = 1, comment_text = [97]\<rparr>,
                               \<lparr>comment_id = 2, comment_text = [98]\<rparr>], seq = 2\<rparr>,
      login = None\<rparr> = Inr [[98], [97]] \<and>
   get_all_records (snd (purge_all_records
     \<lparr>comments = Some \<lparr>rows = [\<lparr>comment_id = 1, comment_text = [97]\<rparr>,
                               \<lparr>comment_id = 2, comment_text = [98]\<rparr>], seq = 2\<rparr>,
      login = None\<rparr>)) = Inr []"
  using purge_then_get_all_records
    [of "\<lparr>comments = Some \<lparr>rows = [\<lparr>comment_id = 1, comment_text = [97]\<rparr>,
                                    \<lparr>comment_id = 2, comment_text = [98]\<rparr>], seq = 2\<rparr>,
           login = None\<rparr>"
        "\<lparr>rows = [\<lparr>comment_id = 1, comment_text = [97]\<rparr>,
                 \<lparr>comment_id = 2, comment_text = [98]\<rparr>], seq = 2\<rparr>"]
  by (simp add: get_all_records_def select_text_desc_def order_by_id_desc_def)

text \<open>
  Claim C5. On a comments table that exists and is not full, \<open>create_record t\<close>
  succeeds for every text \<open>t\<close> that encodes as UTF-8 and whose row is within the
  length limit, the empty text included, and the listing right after it is \<open>t\<close>
  followed by the listing from before the call. No other text is stored: the call
  raises and the listing stays as it was.
\<close>

theorem create_record_then_first:
  assumes "comments db = Some tab" and "largest_rowid tab < max_rowid"
  shows "(accepted_text t \<longrightarrow>
            fst (create_record t db) = Inr True \<and>
            (\<exists>older. get_all_records db = Inr older \<and>
                     get_all_records (snd (create_record t db)) = Inr (t # older))) \<and>
         (\<not> accepted_text t \<longrightarrow>
            (\<exists>e. fst (create_record t db) = Inl e) \<and>
            get_all_records (snd (create_record t db)) = get_all_records db)"
proof -
  have listed: "get_all_records (db\<lparr>comments := Some (append_row t tab)\<rparr>) =
        Inr (t # map comment_text (order_by_id_desc (rows tab)))"
    by (simp add: get_all_records_table [of _ "append_row t tab"] order_by_id_desc_append_row)
  have stored: "fst (create_record t db) = Inr True \<and>
            (\<exists>older. get_all_records db = Inr older \<and>
                     get_all_records (snd (create_record t db)) = Inr (t # older))"
    if "accepted_text t"
    using assms that listed by (simp add: create_record_succeeds get_all_records_table)
  have refused: "(\<exists>e. fst (create_record t db) = Inl e) \<and>
            get_all_records (snd (create_record t db)) = get_all_records db"
    if "\<not> accepted_text t"
  proof -
    from create_record_refused [OF that] obtain e where "create_record t db = (Inl e, db)"
      by blast
    then show ?thesis by simp
  qed
  show ?thesis
    using stored refused by blast
qed

theorem create_record_then_first_witness:
  "comments (make_comments \<lparr>comments = None, login = None\<rparr>) = Some \<lparr>rows = [], seq = 0\<rparr> \<and>
   largest_rowid \<lparr>rows = [], seq = 0\<rparr> < max_rowid \<and>
   accepted_text [] \<and>
   fst (create_record [] (make_comments \<lparr>comments = None, login = None\<rparr>)) = Inr True \<and>
   get_all_records (snd (create_record [] (make_comments \<lparr>comments = None, login = None\<rparr>)))
     = Inr [[]]"
proof -
  have h1: "comments (make_comments \<lparr>comments = None, login = None\<rparr>) =
            Some \<lparr>rows = [], seq = 0\<rparr>"
    by (simp add: make_comments_def create_comments_def drop_comments_def)
  have h2: "largest_rowid \<lparr>rows = [], seq = 0\<rparr> < max_rowid"
    by (simp add: largest_rowid_def max_rowid_def)
  have h3: "accepted_text []"
    by (simp add: accepted_text_def encodable_def utf8_length_def record_size_def
        varint_length_def SQLITE_LIMIT_LENGTH_def)
  have old: "get_all_records (make_comments \<lparr>comments = None, login = None\<rparr>) = Inr []"
    using h1 by (simp add: get_all_records_table order_by_id_desc_def)
  show ?thesis
    using create_record_then_first [OF h1 h2, of "[]"] h1 h2 h3 old by auto
qed

text \<open>
  The claim as it was stated, for every text, fails on a freshly made table: a text of
  1000000000 letters \<^verbatim>\<open>a\<close> is over the length limit, and a text that is one lone
  surrogate does not encode. Both calls raise, and the listing afterwards is empty.
\<close>

theorem create_record_then_first_counterexample:
  "fst (create_record (replicate 1000000000 97)
         (make_comments \<lparr>comments = None, login = None\<rparr>)) = Inl TooBig \<and>
   get_all_records (snd (create_record (replicate 1000000000 97)
         (make_comments \<lparr>comments = None, login = None\<rparr>))) = Inr [] \<and>
   fst (create_record [55296]
         (make_comments \<lparr>comments = None, login = None\<rparr>)) = Inl UnicodeEncodeError \<and>
   get_all_records (snd (create_record [55296]
         (make_comments \<lparr>comments = None, login = None\<rparr>))) = Inr []"
proof -
  let ?db = "make_comments \<lparr>comments = None, login = None\<rparr>"
  have tab: "comments ?db = Some \<lparr>rows = [], seq = 0\<rparr>"
    by (simp add: make_comments_def create_comments_def drop_comments_def)
  have room: "\<not> max_rowid \<le> largest_rowid \<lparr>rows = [], seq = 0\<rparr>"
    by (simp add: largest_rowid_def max_rowid_def)
  have empty: "get_all_records ?db = Inr []"
    using tab by (simp add: get_all_records_table order_by_id_desc_def)
  have enc: "encodable (replicate 1000000000 97)"
    by (rule encodable_replicate) (simp add: is_surrogate_def)
  have len: "utf8_length (replicate 1000000000 97) = 1000000000"
    by (simp add: utf8_length_replicate utf8_width_def)
  have size: "SQLITE_LIMIT_LENGTH < record_size 1000000000"
    by (simp add: record_size_def SQLITE_LIMIT_LENGTH_def)
  have big: "create_record (replicate 1000000000 97) ?db = (Inl TooBig, ?db)"
    using tab room enc size
    by (simp add: create_record_def insert_comment_def len INT_MAX_def SQLITE_LIMIT_LENGTH_def)
  have lone: "create_record [55296] ?db = (Inl UnicodeEncodeError, ?db)"
    using tab by (simp add: create_record_def insert_comment_def encodable_def is_surrogate_def)
  show ?thesis
    using big lone empty by simp
qed

text \<open>
  Claim C6. \<open>purge_all_records\<close> run a second time gives the result of the first run
  and leaves the database of the first run. On a table that is already empty the
  route, called with a permitted session or the bearer token, answers with the
  envelope of status true and leaves the database as it is.
\<close>

theorem purge_all_records_idempotent:
  "purge_all_records (snd (purge_all_records db)) =
     (fst (purge_all_records db), snd (purge_all_records db)) \<and>
   (comments db = Some tab \<and> rows tab = [] \<and> (bypass \<or> get_permitted (session_get_user s))
    \<longrightarrow> fst (purge_all_records db) = Inr () \<and>
        purge_all_records_route s bypass db =
          (Inr (JSONResponse
             \<lparr>status = True, message = ''All records deleted!'', data = Null\<rparr>), db))"
proof -
  have twice: "purge_all_records (snd (purge_all_records db)) =
     (fst (purge_all_records db), snd (purge_all_records db))"
    by (cases "comments db") (simp_all add: purge_all_records_def delete_from_comments_def)
  have empty: "purge_all_records db = (Inr (), db)"
    if "comments db = Some tab" and "rows tab = []"
    using that by (simp add: purge_all_records_def delete_from_comments_def)
  have route: "purge_all_records_route s bypass db =
          (Inr (JSONResponse
             \<lparr>status = True, message = ''All records deleted!'', data = Null\<rparr>), db)"
    if "comments db = Some tab" and "rows tab = []"
      and "bypass \<or> get_permitted (session_get_user s)"
    using that empty by (auto simp add: purge_all_records_route_def)
  show ?thesis
    using twice empty route by simp
qed

theorem purge_all_records_idempotent_witness:
  "purge_all_records (snd (purge_all_records (make_comments \<lparr>comments = None, login = None\<rparr>))) =
     (Inr (), make_comments \<lparr>comments = None, login = None\<rparr>) \<and>
   purge_all_records_route Map.empty True (make_comments \<lparr>comments = None, login = None\<rparr>) =
     (Inr (JSONResponse \<lparr>status = True, message = ''All records deleted!'', data = Null\<rparr>),
      make_comments \<lparr>comments = None, login = None\<rparr>)"
  using purge_all_records_idempotent
    [of "make_comments \<lparr>comments = None, login = None\<rparr>" "\<lparr>rows = [], seq = 0\<rparr>" True Map.empty]
  by (simp add: make_comments_def create_comments_def drop_comments_def
      purge_all_records_def delete_from_comments_def)

section \<open>The login table\<close>

lemma make_login_result:
  "make_login db =
     (Inr (), db\<lparr>login := Some [\<lparr>username = ''admin'', password = default_password_hash\<rparr>]\<rparr>)"
  by (simp add: make_login_def insert_login_def create_login_def drop_login_def)

text \<open>
  Claim C2. \<open>make_login\<close> succeeds on every database and leaves a login table of
  exactly one row, with the username admin and the default hash. The table it leaves
  does not depend on the table it found: dropping the table first changes nothing, and
  two databases end with the same login table. The comments are not touched.
\<close>

theorem make_login_single_admin_row:
  "fst (make_login db) = Inr () \<and>
   login (snd (make_login db)) =
     Some [\<lparr>username = ''admin'', password = default_password_hash\<rparr>] \<and>
   (case login (snd (make_login db)) of
      None \<Rightarrow> False
    | Some rs \<Rightarrow> length rs = 1 \<and> map username rs = [''admin'']) \<and>
   login (snd (make_login db)) = login (snd (make_login (drop_login db))) \<and>
   login (snd (make_login db)) = login (snd (make_login db2)) \<and>
   comments (snd (make_login db)) = comments db"
  by (simp add: make_login_def insert_login_def create_login_def drop_login_def)

section \<open>Sessions and the bearer token\<close>

text \<open>
  Claim C8. \<open>verify_bearer_token\<close> is true exactly when credentials are present, their
  scheme is the string Bearer and their credential string is the configured token. An
  unset token matches nothing, and the scheme is compared as sent.
\<close>

theorem verify_bearer_token_iff:
  "verify_bearer_token BEARER_TOKEN cred =
     (\<exists>c. cred = Some c \<and> scheme c = ''Bearer'' \<and> Some (credentials c) = BEARER_TOKEN)"
  by (cases cred) (auto simp: verify_bearer_token_def)

theorem verify_bearer_token_iff_witness:
  "verify_bearer_token (Some ''s3cret'') (Some \<lparr>scheme = ''Bearer'', credentials = ''s3cret''\<rparr>) \<and>
   \<not> verify_bearer_token (Some ''s3cret'') (Some \<lparr>scheme = ''Bearer'', credentials = ''s3cre''\<rparr>) \<and>
   \<not> verify_bearer_token (Some ''s3cret'') (Some \<lparr>scheme = ''bearer'', credentials = ''s3cret''\<rparr>) \<and>
   \<not> verify_bearer_token None (Some \<lparr>scheme = ''Bearer'', credentials = []\<rparr>) \<and>
   \<not> verify_bearer_token (Some ''s3cret'') None"
  using verify_bearer_token_iff
    [of "Some ''s3cret''" "Some \<lparr>scheme = ''Bearer'', credentials = ''s3cret''\<rparr>"]
  by (simp add: verify_bearer_token_def)

text \<open>
  Claim C10. Without credentials \<open>verify_bearer_token\<close> is false, whatever the
  configured token. A request without credentials and without a permitted session
  reaches neither guarded operation: both routes leave the database as it is.
\<close>

theorem verify_bearer_token_fails_closed:
  "verify_bearer_token BEARER_TOKEN None = False \<and>
   (\<not> get_permitted (session_get_user s) \<longrightarrow>
      purge_all_records_route s (verify_bearer_token BEARER_TOKEN None) db =
        (Inr (RedirectResponse ''/login/'' 302), db) \<and>
      snd (change_pass_route change_cred s new_pass (verify_bearer_token BEARER_TOKEN None) db)
        = db)"
  by (simp add: verify_bearer_token_def purge_all_records_route_def change_pass_route_def)

theorem verify_bearer_token_fails_closed_witness:
  "verify_bearer_token None None = False \<and>
   \<not> get_permitted (session_get_user Map.empty) \<and>
   snd (purge_all_records_route Map.empty (verify_bearer_token None None)
      \<lparr>comments = Some \<lparr>rows = [\<lparr>comment_id = 1, comment_text = [104, 105]\<rparr>], seq = 1\<rparr>,
       login = None\<rparr>) =
      \<lparr>comments = Some \<lparr>rows = [\<lparr>comment_id = 1, comment_text = [104, 105]\<rparr>], seq = 1\<rparr>,
       login = None\<rparr>"
  using verify_bearer_token_fails_closed
    [of None Map.empty
        "\<lparr>comments = Some \<lparr>rows = [\<lparr>comment_id = 1, comment_text = [104, 105]\<rparr>], seq = 1\<rparr>,
          login = None\<rparr>"]
  by (simp add: session_get_user_def get_permitted_def verify_bearer_token_def)

text \<open>
  Claim C9. \<open>logout_route\<close> answers with status true on every session, the empty one
  included. A second logout changes nothing, any number of logouts leaves the session
  of one logout, and \<open>check_user_route\<close> on that session answers with status false.
\<close>

theorem logout_route_idempotent:
  "envelope_status (fst (logout_route s)) = Some True \<and>
   snd (logout_route (snd (logout_route s))) = snd (logout_route s) \<and>
   ((\<lambda>x. snd (logout_route x)) ^^ Suc n) s = snd (logout_route s) \<and>
   envelope_status (check_user_route (((\<lambda>x. snd (logout_route x)) ^^ Suc n) s)) = Some False"
proof -
  have idem: "snd (logout_route (snd (logout_route x))) = snd (logout_route x)" for x
    by (simp add: logout_route_def)
  have rep: "((\<lambda>x. snd (logout_route x)) ^^ Suc n) s = snd (logout_route s)"
  proof (induction n)
    case 0
    show ?case by simp
  next
    case (Suc n)
    have "((\<lambda>x. snd (logout_route x)) ^^ Suc (Suc n)) s =
          snd (logout_route (((\<lambda>x. snd (logout_route x)) ^^ Suc n) s))"
      by simp
    also have "\<dots> = snd (logout_route (snd (logout_route s)))"
      by (simp only: Suc.IH)
    also have "\<dots> = snd (logout_route s)"
      by (rule idem)
    finally show ?case .
  qed
  have chk: "envelope_status (check_user_route (snd (logout_route s))) = Some False"
    by (simp add: logout_route_def check_user_route_def session_get_user_def get_permitted_def)
  have st: "envelope_status (fst (logout_route s)) = Some True"
    by (simp add: logout_route_def)
  show ?thesis
    using st idem rep chk by (simp only: simp_thms)
qed

text \<open>
  Claim C7. When the credential check returns false, \<open>login_route\<close> answers with
  status false and removes the user from the session, so that \<open>check_user_route\<close>
  then answers with status false. When the check returns true, the session holds the
  permitted user. A login that answers and leaves a permitted session passed the check.
\<close>

theorem login_route_failure_no_session:
  "(is_permitted u p db = Inr False \<longrightarrow>
      (\<exists>resp s'. login_route is_permitted s u p db = (Inr resp, s') \<and>
         envelope_status resp = Some False \<and> s' ''user'' = None \<and>
         envelope_status (check_user_route s') = Some False)) \<and>
   (is_permitted u p db = Inr True \<longrightarrow>
      (\<exists>resp s'. login_route is_permitted s u p db = (Inr resp, s') \<and>
         envelope_status resp = Some True \<and> s' ''user'' = Some [''permitted'' \<mapsto> True] \<and>
         envelope_status (check_user_route s') = Some True)) \<and>
   (\<forall>resp s'. login_route is_permitted s u p db = (Inr resp, s') \<and>
        get_permitted (session_get_user s') \<longrightarrow> is_permitted u p db = Inr True)"
proof -
  have fail: "\<exists>resp s'. login_route is_permitted s u p db = (Inr resp, s') \<and>
         envelope_status resp = Some False \<and> s' ''user'' = None \<and>
         envelope_status (check_user_route s') = Some False"
    if "is_permitted u p db = Inr False"
    using that
    by (simp add: login_route_def check_user_route_def session_get_user_def get_permitted_def)
  have ok: "\<exists>resp s'. login_route is_permitted s u p db = (Inr resp, s') \<and>
         envelope_status resp = Some True \<and> s' ''user'' = Some [''permitted'' \<mapsto> True] \<and>
         envelope_status (check_user_route s') = Some True"
    if "is_permitted u p db = Inr True"
    using that
    by (simp add: login_route_def check_user_route_def session_get_user_def get_permitted_def)
  have only: "is_permitted u p db = Inr True"
    if "login_route is_permitted s u p db = (Inr resp, s')"
      and "get_permitted (session_get_user s')" for resp s'
  proof (cases "is_permitted u p db")
    case (Inl e)
    with that(1) show ?thesis by (simp add: login_route_def)
  next
    case (Inr b)
    show ?thesis
    proof (cases b)
      case True
      with Inr show ?thesis by simp
    next
      case False
      with Inr that(1) have "s' = s(''user'' := None)"
        by (simp add: login_route_def)
      with that(2) show ?thesis
        by (simp add: session_get_user_def get_permitted_def)
    qed
  qed
  show ?thesis
    using fail ok only by blast
qed

theorem login_route_failure_no_session_witness:
  "login_route (\<lambda>u p db. Inr (u = ''admin'' \<and> p = ''password''))
       [''user'' \<mapsto> [''permitted'' \<mapsto> True]] ''admin'' ''guess''
       \<lparr>comments = None, login = None\<rparr> =
     (Inr (JSONResponse \<lparr>status = False, message = ''Invalid credentials!'', data = Null\<rparr>),
      Map.empty) \<and>
   envelope_status (check_user_route [''user'' \<mapsto> [''permitted'' \<mapsto> True]]) = Some True \<and>
   envelope_status (check_user_route Map.empty) = Some False"
  using login_route_failure_no_session
    [of "\<lambda>u p db. Inr (u = ''admin'' \<and> p = ''password'')" "''admin''" "''guess''"
        "\<lparr>comments = None, login = None\<rparr>" "[''user'' \<mapsto> [''permitted'' \<mapsto> True]]"]
  by (simp add: login_route_def check_user_route_def session_get_user_def get_permitted_def)

section \<open>The guarded routes without authorization\<close>

lemma change_pass_route_unauthorized:
  assumes "\<not> get_permitted (session_get_user s)" and "\<not> verify_bearer_token tok cred"
  shows "change_pass_route change_cred s new_pass (verify_bearer_token tok cred) db =
           (Inr (JSONResponse \<lparr>status = False, message = ''Login first!'', data = Null\<rparr>), db)"
  using assms by (simp add: change_pass_route_def)

lemma purge_all_records_route_unauthorized:
  assumes "\<not> get_permitted (session_get_user s)" and "\<not> verify_bearer_token tok cred"
  shows "purge_all_records_route s (verify_bearer_token tok cred) db =
           (Inr (RedirectResponse ''/login/'' 302), db)"
  using assms by (simp add: purge_all_records_route_def)

text \<open>
  Claim C1. A request with an empty session and no credentials, while a token is
  configured, carries neither a permitted session nor the bearer token. The purge
  route answers it with a redirect to the login path, which is not an envelope of
  status false.
\<close>

theorem purge_all_records_route_unauthorized_redirect:
  "\<not> get_permitted (session_get_user Map.empty) \<and>
   \<not> verify_bearer_token (Some ''secret'') None \<and>
   purge_all_records_route Map.empty (verify_bearer_token (Some ''secret'') None) db =
     (Inr (RedirectResponse ''/login/'' 302), db) \<and>
   envelope_status (RedirectResponse ''/login/'' 302) \<noteq> Some False"
  by (simp add: purge_all_records_route_def verify_bearer_token_def session_get_user_def
      get_permitted_def)

end
